theory Spec2Isabelle
  imports Main "HOL-Library.Word"
begin

section \<open>The display controller of ZSWatch (app/src/drivers/zsw_display_control.c)\<close>

text \<open>
  The controller keeps three static variables (\<open>display_state\<close>,
  \<open>first_render_since_poweron\<close>, \<open>last_brightness\<close>) and talks to four devices
  (backlight PWM, regulator, display panel, touch controller).  The embedding passes
  the three variables explicitly and records every call into a driver, the work queue
  or LVGL as an entry of a chronological list, so that "no side effect" is the
  statement that this list did not grow.

  Logging (\<open>LOG_DBG\<close>, \<open>LOG_WRN\<close>, \<open>LOG_ERR\<close>) and the recursive mutex
  \<open>display_mutex\<close> are left out: every function is modelled as one atomic step of a
  sequential caller.  \<open>__ASSERT\<close> is modelled as enabled: a failing assertion ends the
  call with an error instead of a state.
\<close>

subsection \<open>Data\<close>

type_synonym u8 = "8 word"
type_synonym u32 = "32 word"

datatype display_state_t =
    DISPLAY_STATE_AWAKE
  | DISPLAY_STATE_SLEEPING
  | DISPLAY_STATE_POWERED_OFF

datatype device = Display_dev | Touch_dev

datatype pm_device_action =
    PM_DEVICE_ACTION_SUSPEND
  | PM_DEVICE_ACTION_RESUME
  | PM_DEVICE_ACTION_TURN_OFF
  | PM_DEVICE_ACTION_TURN_ON

text \<open>One entry per call that leaves the file, with the arguments that vary.\<close>

datatype effect =
    Display_blanking_on
  | Display_blanking_off
  | Pm_device_action_run device pm_device_action
  | Regulator_enable
  | Regulator_disable
  | Pwm_set_pulse_dt u32
  | K_work_schedule int
  | K_work_cancel_delayable_sync
  | Lv_obj_invalidate
  | Lv_task_handler

text \<open>
  What the build and the device tree fix: the result of \<open>device_is_ready\<close> for each
  of the four devices, \<open>display_blk.period\<close>, and whether
  \<open>CONFIG_BOARD_NATIVE_POSIX\<close> is defined (it compiles the regulator calls out).
\<close>

record board =
  display_dev_ready :: bool
  display_blk_ready :: bool
  reg_dev_ready :: bool
  touch_dev_ready :: bool
  display_blk_period :: u32
  board_native_posix :: bool

record state =
  display_state :: display_state_t
  first_render_since_poweron :: bool
  last_brightness :: u8
  effects :: "effect list"

datatype error = Assertion_failed

text \<open>
  \<open>errno.h\<close> is not part of the sources at hand; the two codes have the values of
  Zephyr's \<open>errno.h\<close>.  Only their being non-zero is ever used.
\<close>

definition EIO :: int where
  "EIO = 5"

definition EALREADY :: int where
  "EALREADY = 120"

subsection \<open>Operations\<close>

definition emit :: "effect \<Rightarrow> state \<Rightarrow> state" where
  "emit e s = s\<lparr>effects := effects s @ [e]\<rparr>"

text \<open>
  The static initialisers: \<open>display_state\<close> and \<open>first_render_since_poweron\<close> are
  zero-initialised (the first enumerator, \<open>false\<close>), \<open>last_brightness = 30\<close>.
\<close>

definition boot_state :: state where
  "boot_state = \<lparr>display_state = DISPLAY_STATE_AWAKE, first_render_since_poweron = False,
     last_brightness = 30, effects = []\<rparr>"

definition zsw_display_control_init :: "board \<Rightarrow> state \<Rightarrow> state" where
  "zsw_display_control_init hw s = s\<lparr>display_state := DISPLAY_STATE_SLEEPING\<rparr>"

definition zsw_display_control_get_brightness :: "state \<Rightarrow> u8" where
  "zsw_display_control_get_brightness s = last_brightness s"

text \<open>
  \<open>uint32_t pulse_width = percent * (display_blk.period / 100)\<close>: the division is on
  \<open>uint32_t\<close>, the product wraps at 32 bits.
\<close>

definition pulse_width :: "board \<Rightarrow> u8 \<Rightarrow> u32" where
  "pulse_width hw percent = ucast percent * (display_blk_period hw div 100)"

text \<open>
  \<open>percent >= 0\<close> holds of every \<open>uint8_t\<close>, so the first assertion is
  \<open>percent <= 100\<close>.  \<open>pwm_set_pulse_dt\<close> is taken to return 0, so the second
  assertion passes.
\<close>

definition zsw_display_control_set_brightness :: "board \<Rightarrow> u8 \<Rightarrow> state \<Rightarrow> error + state" where
  "zsw_display_control_set_brightness hw percent s =
     (if \<not> display_blk_ready hw then Inr s
      else if \<not> percent \<le> 100 then Inl Assertion_failed
      else
        let s1 = (if percent \<noteq> 0 then s\<lparr>last_brightness := percent\<rparr> else s)
        in Inr (emit (Pwm_set_pulse_dt (pulse_width hw percent)) s1))"

definition suspend_touch :: "board \<Rightarrow> state \<Rightarrow> state" where
  "suspend_touch hw s =
     (if touch_dev_ready hw then emit (Pm_device_action_run Touch_dev PM_DEVICE_ACTION_SUSPEND) s
      else s)"

definition resume_touch :: "board \<Rightarrow> state \<Rightarrow> state" where
  "resume_touch hw s =
     (if touch_dev_ready hw then emit (Pm_device_action_run Touch_dev PM_DEVICE_ACTION_RESUME) s
      else s)"

definition zsw_display_control_sleep_ctrl :: "board \<Rightarrow> bool \<Rightarrow> state \<Rightarrow> error + int \<times> state" where
  "zsw_display_control_sleep_ctrl hw on s =
     (case display_state s of
        DISPLAY_STATE_AWAKE \<Rightarrow>
          if on then Inr (- EALREADY, s)
          else
            let s1 = s\<lparr>display_state := DISPLAY_STATE_SLEEPING\<rparr>;
                s2 = emit Display_blanking_on s1;
                s3 = emit (Pm_device_action_run Display_dev PM_DEVICE_ACTION_SUSPEND) s2;
                s4 = suspend_touch hw s3
            in (case zsw_display_control_set_brightness hw 0 s4 of
                  Inl e \<Rightarrow> Inl e
                | Inr s5 \<Rightarrow>
                    Inr (0, emit Lv_obj_invalidate (emit K_work_cancel_delayable_sync s5)))
      | DISPLAY_STATE_SLEEPING \<Rightarrow>
          if on then
            let s1 = s\<lparr>display_state := DISPLAY_STATE_AWAKE\<rparr>;
                s2 = emit (Pm_device_action_run Display_dev PM_DEVICE_ACTION_RESUME) s1;
                s3 = resume_touch hw s2
            in (case (if \<not> first_render_since_poweron s3
                      then zsw_display_control_set_brightness hw (last_brightness s3) s3
                      else Inr s3) of
                  Inl e \<Rightarrow> Inl e
                | Inr s4 \<Rightarrow> Inr (0, emit (K_work_schedule 250) (emit Display_blanking_off s4)))
          else Inr (- EALREADY, s)
      | DISPLAY_STATE_POWERED_OFF \<Rightarrow> Inr (- EIO, s))"

definition zsw_display_control_pwr_ctrl :: "board \<Rightarrow> bool \<Rightarrow> state \<Rightarrow> int \<times> state" where
  "zsw_display_control_pwr_ctrl hw on s =
     (case display_state s of
        DISPLAY_STATE_AWAKE \<Rightarrow> (- EALREADY, s)
      | DISPLAY_STATE_SLEEPING \<Rightarrow>
          if on then (- EALREADY, s)
          else if reg_dev_ready hw then
            let s1 = s\<lparr>display_state := DISPLAY_STATE_POWERED_OFF\<rparr>;
                s2 = (if board_native_posix hw then s1 else emit Regulator_disable s1)
            in (0, emit (Pm_device_action_run Display_dev PM_DEVICE_ACTION_TURN_OFF) s2)
          else (- EALREADY, s)
      | DISPLAY_STATE_POWERED_OFF \<Rightarrow>
          if on then
            if reg_dev_ready hw then
              let s1 = s\<lparr>display_state := DISPLAY_STATE_SLEEPING\<rparr>;
                  s2 = (if board_native_posix hw then s1 else emit Regulator_enable s1);
                  s3 = emit (Pm_device_action_run Display_dev PM_DEVICE_ACTION_TURN_ON) s2
              in (0, s3\<lparr>first_render_since_poweron := True\<rparr>)
            else (- EALREADY, s)
          else (- EALREADY, s))"

text \<open>
  The work item.  \<open>next_update_in_ms\<close> is what \<open>lv_task_handler\<close> returned, a value
  the model takes as an argument.
\<close>

definition lvgl_render :: "board \<Rightarrow> int \<Rightarrow> state \<Rightarrow> error + state" where
  "lvgl_render hw next_update_in_ms s =
     (let s1 = emit Lv_task_handler s
      in case (if first_render_since_poweron s1
               then (case zsw_display_control_set_brightness hw (last_brightness s1) s1 of
                       Inl e \<Rightarrow> Inl e
                     | Inr s2 \<Rightarrow> Inr (s2\<lparr>first_render_since_poweron := False\<rparr>))
               else Inr s1) of
           Inl e \<Rightarrow> Inl e
         | Inr s3 \<Rightarrow> Inr (emit (K_work_schedule next_update_in_ms) s3))"

subsection \<open>Sequences of calls\<close>

datatype transition =
    Sleep_ctrl bool
  | Pwr_ctrl bool

datatype call =
    Set_brightness u8
  | Transition transition
  | Render int

text \<open>The two transition entry points, with the value each returns.\<close>

definition transition_call :: "board \<Rightarrow> transition \<Rightarrow> state \<Rightarrow> error + int \<times> state" where
  "transition_call hw t s =
     (case t of
        Sleep_ctrl on \<Rightarrow> zsw_display_control_sleep_ctrl hw on s
      | Pwr_ctrl on \<Rightarrow> Inr (zsw_display_control_pwr_ctrl hw on s))"

text \<open>One call, its return value dropped; a failed assertion stops the program.\<close>

definition step :: "board \<Rightarrow> call \<Rightarrow> state \<Rightarrow> error + state" where
  "step hw c s =
     (case c of
        Set_brightness percent \<Rightarrow> zsw_display_control_set_brightness hw percent s
      | Transition t \<Rightarrow>
          (case transition_call hw t s of
             Inl e \<Rightarrow> Inl e
           | Inr (res, s') \<Rightarrow> Inr s')
      | Render next_update_in_ms \<Rightarrow> lvgl_render hw next_update_in_ms s)"

fun run :: "board \<Rightarrow> call list \<Rightarrow> state \<Rightarrow> error + state" where
  "run hw [] s = Inr s"
| "run hw (c # cs) s = (case step hw c s of Inl e \<Rightarrow> Inl e | Inr s' \<Rightarrow> run hw cs s')"

text \<open>The states the program passes through, the starting state first.\<close>

fun run_states :: "board \<Rightarrow> call list \<Rightarrow> state \<Rightarrow> state list" where
  "run_states hw [] s = [s]"
| "run_states hw (c # cs) s =
     s # (case step hw c s of Inl e \<Rightarrow> [] | Inr s' \<Rightarrow> run_states hw cs s')"

text \<open>The data invariant of \<open>last_brightness\<close>: a percentage other than 0.\<close>

definition brightness_valid :: "state \<Rightarrow> bool" where
  "brightness_valid s = (last_brightness s \<noteq> 0 \<and> last_brightness s \<le> 100)"

subsection \<open>Example boards and states\<close>

text \<open>Every device present, a PWM period of 20 ms in nanoseconds.\<close>

definition full_board :: board where
  "full_board = \<lparr>display_dev_ready = True, display_blk_ready = True, reg_dev_ready = True,
     touch_dev_ready = True, display_blk_period = 20000000, board_native_posix = False\<rparr>"

text \<open>No device present.\<close>

definition bare_board :: board where
  "bare_board = \<lparr>display_dev_ready = False, display_blk_ready = False, reg_dev_ready = False,
     touch_dev_ready = False, display_blk_period = 0, board_native_posix = False\<rparr>"

text \<open>Only the regulator present.\<close>

definition regulator_only_board :: board where
  "regulator_only_board = bare_board\<lparr>reg_dev_ready := True\<rparr>"

text \<open>A backlight whose period is not a multiple of 100.\<close>

definition odd_period_board :: board where
  "odd_period_board = full_board\<lparr>display_blk_period := 150\<rparr>"

text \<open>A build for the native POSIX board on which the regulator node exists.\<close>

definition posix_board :: board where
  "posix_board = full_board\<lparr>board_native_posix := True\<rparr>"

text \<open>
  The state after \<open>zsw_display_control_init\<close>, the two other display states, and the
  sleeping state with \<open>first_render_since_poweron\<close> set.
\<close>

definition sleeping_state :: state where
  "sleeping_state = zsw_display_control_init full_board boot_state"

definition awake_state :: state where
  "awake_state = sleeping_state\<lparr>display_state := DISPLAY_STATE_AWAKE\<rparr>"

definition powered_off_state :: state where
  "powered_off_state = sleeping_state\<lparr>display_state := DISPLAY_STATE_POWERED_OFF\<rparr>"

definition first_render_state :: state where
  "first_render_state = sleeping_state\<lparr>first_render_since_poweron := True\<rparr>"

subsection \<open>Steps that would bypass the sleeping state\<close>

definition skips_sleeping :: "display_state_t \<Rightarrow> display_state_t \<Rightarrow> bool" where
  "skips_sleeping a b =
     (a = DISPLAY_STATE_AWAKE \<and> b = DISPLAY_STATE_POWERED_OFF
      \<or> a = DISPLAY_STATE_POWERED_OFF \<and> b = DISPLAY_STATE_AWAKE)"

section \<open>Basic facts\<close>

lemma EALREADY_nonzero: "- EALREADY \<noteq> 0"
  by (simp add: EALREADY_def)

lemma EIO_nonzero: "- EIO \<noteq> 0"
  by (simp add: EIO_def)

lemma EIO_not_EALREADY: "- EIO \<noteq> - EALREADY"
  by (simp add: EIO_def EALREADY_def)

lemma set_brightness_not_ready:
  "\<not> display_blk_ready hw \<Longrightarrow> zsw_display_control_set_brightness hw percent s = Inr s"
  by (simp add: zsw_display_control_set_brightness_def)

lemma set_brightness_zero:
  "zsw_display_control_set_brightness hw 0 s =
     Inr (if display_blk_ready hw then emit (Pwm_set_pulse_dt 0) s else s)"
  by (simp add: zsw_display_control_set_brightness_def pulse_width_def)

lemma set_brightness_in_range:
  "percent \<le> 100 \<Longrightarrow>
   zsw_display_control_set_brightness hw percent s =
     Inr (if display_blk_ready hw
          then emit (Pwm_set_pulse_dt (pulse_width hw percent))
                 (if percent \<noteq> 0 then s\<lparr>last_brightness := percent\<rparr> else s)
          else s)"
  by (simp add: zsw_display_control_set_brightness_def)

subsection \<open>The result of each branch\<close>

lemma emit_simps:
  "display_state (emit e s) = display_state s"
  "first_render_since_poweron (emit e s) = first_render_since_poweron s"
  "last_brightness (emit e s) = last_brightness s"
  "effects (emit e s) = effects s @ [e]"
  by (simp_all add: emit_def)

lemma sleep_ctrl_awake_on:
  "display_state s = DISPLAY_STATE_AWAKE \<Longrightarrow>
   zsw_display_control_sleep_ctrl hw True s = Inr (- EALREADY, s)"
  by (simp add: zsw_display_control_sleep_ctrl_def)

lemma sleep_ctrl_awake_off:
  "display_state s = DISPLAY_STATE_AWAKE \<Longrightarrow>
   zsw_display_control_sleep_ctrl hw False s =
     Inr (0, s\<lparr>display_state := DISPLAY_STATE_SLEEPING,
               effects := effects s
                 @ [Display_blanking_on, Pm_device_action_run Display_dev PM_DEVICE_ACTION_SUSPEND]
                 @ (if touch_dev_ready hw
                    then [Pm_device_action_run Touch_dev PM_DEVICE_ACTION_SUSPEND] else [])
                 @ (if display_blk_ready hw then [Pwm_set_pulse_dt 0] else [])
                 @ [K_work_cancel_delayable_sync, Lv_obj_invalidate]\<rparr>)"
  by (simp add: zsw_display_control_sleep_ctrl_def set_brightness_zero suspend_touch_def
      emit_def Let_def)

lemma sleep_ctrl_sleeping_on:
  "display_state s = DISPLAY_STATE_SLEEPING \<Longrightarrow> last_brightness s \<le> 100 \<Longrightarrow>
   zsw_display_control_sleep_ctrl hw True s =
     Inr (0, s\<lparr>display_state := DISPLAY_STATE_AWAKE,
               effects := effects s
                 @ [Pm_device_action_run Display_dev PM_DEVICE_ACTION_RESUME]
                 @ (if touch_dev_ready hw
                    then [Pm_device_action_run Touch_dev PM_DEVICE_ACTION_RESUME] else [])
                 @ (if \<not> first_render_since_poweron s \<and> display_blk_ready hw
                    then [Pwm_set_pulse_dt (pulse_width hw (last_brightness s))] else [])
                 @ [Display_blanking_off, K_work_schedule 250]\<rparr>)"
  by (simp add: zsw_display_control_sleep_ctrl_def set_brightness_in_range resume_touch_def
      emit_def Let_def)

lemma sleep_ctrl_sleeping_off:
  "display_state s = DISPLAY_STATE_SLEEPING \<Longrightarrow>
   zsw_display_control_sleep_ctrl hw False s = Inr (- EALREADY, s)"
  by (simp add: zsw_display_control_sleep_ctrl_def)

lemma sleep_ctrl_powered_off:
  "display_state s = DISPLAY_STATE_POWERED_OFF \<Longrightarrow>
   zsw_display_control_sleep_ctrl hw on s = Inr (- EIO, s)"
  by (simp add: zsw_display_control_sleep_ctrl_def)

lemma pwr_ctrl_awake:
  "display_state s = DISPLAY_STATE_AWAKE \<Longrightarrow>
   zsw_display_control_pwr_ctrl hw on s = (- EALREADY, s)"
  by (simp add: zsw_display_control_pwr_ctrl_def)

lemma pwr_ctrl_sleeping_on:
  "display_state s = DISPLAY_STATE_SLEEPING \<Longrightarrow>
   zsw_display_control_pwr_ctrl hw True s = (- EALREADY, s)"
  by (simp add: zsw_display_control_pwr_ctrl_def)

lemma pwr_ctrl_sleeping_off:
  "display_state s = DISPLAY_STATE_SLEEPING \<Longrightarrow>
   zsw_display_control_pwr_ctrl hw False s =
     (if reg_dev_ready hw
      then (0, s\<lparr>display_state := DISPLAY_STATE_POWERED_OFF,
                 effects := effects s
                   @ (if board_native_posix hw then [] else [Regulator_disable])
                   @ [Pm_device_action_run Display_dev PM_DEVICE_ACTION_TURN_OFF]\<rparr>)
      else (- EALREADY, s))"
  by (simp add: zsw_display_control_pwr_ctrl_def emit_def Let_def)

lemma pwr_ctrl_powered_off_on:
  "display_state s = DISPLAY_STATE_POWERED_OFF \<Longrightarrow>
   zsw_display_control_pwr_ctrl hw True s =
     (if reg_dev_ready hw
      then (0, s\<lparr>display_state := DISPLAY_STATE_SLEEPING,
                 first_render_since_poweron := True,
                 effects := effects s
                   @ (if board_native_posix hw then [] else [Regulator_enable])
                   @ [Pm_device_action_run Display_dev PM_DEVICE_ACTION_TURN_ON]\<rparr>)
      else (- EALREADY, s))"
  by (simp add: zsw_display_control_pwr_ctrl_def emit_def Let_def)

lemma pwr_ctrl_powered_off_off:
  "display_state s = DISPLAY_STATE_POWERED_OFF \<Longrightarrow>
   zsw_display_control_pwr_ctrl hw False s = (- EALREADY, s)"
  by (simp add: zsw_display_control_pwr_ctrl_def)

lemma lvgl_render_first:
  "first_render_since_poweron s \<Longrightarrow> last_brightness s \<le> 100 \<Longrightarrow>
   lvgl_render hw n s =
     Inr (s\<lparr>first_render_since_poweron := False,
             effects := effects s @ [Lv_task_handler]
               @ (if display_blk_ready hw
                  then [Pwm_set_pulse_dt (pulse_width hw (last_brightness s))] else [])
               @ [K_work_schedule n]\<rparr>)"
  by (simp add: lvgl_render_def set_brightness_in_range emit_def Let_def)

lemma lvgl_render_later:
  "\<not> first_render_since_poweron s \<Longrightarrow>
   lvgl_render hw n s = Inr (s\<lparr>effects := effects s @ [Lv_task_handler, K_work_schedule n]\<rparr>)"
  by (simp add: lvgl_render_def emit_def Let_def)

subsection \<open>The pulse width without wrap-around\<close>

lemma unat_ucast_percent: "unat (ucast (percent :: u8) :: u32) = unat percent"
proof -
  have "unat percent < 2 ^ 8"
    using unsigned_less [of percent] by simp
  then have "unat percent < 2 ^ 32"
    by simp
  then show ?thesis
    by (simp add: unsigned_ucast_eq take_bit_nat_eq_self)
qed

lemma unat_pulse_width:
  assumes "percent \<le> 100"
  shows "unat (pulse_width hw percent) = unat percent * (unat (display_blk_period hw) div 100)"
proof -
  have p: "unat percent \<le> 100"
    using assms by (simp add: word_le_nat_alt)
  have "unat percent * (unat (display_blk_period hw) div 100)
          \<le> 100 * (unat (display_blk_period hw) div 100)"
    using p by (rule mult_le_mono1)
  also have "\<dots> \<le> unat (display_blk_period hw)"
    by simp
  also have "\<dots> < 2 ^ 32"
    using unsigned_less [of "display_blk_period hw"] by simp
  finally have small: "unat percent * (unat (display_blk_period hw) div 100) < 2 ^ 32" .
  have "unat (pulse_width hw percent)
          = (unat (ucast percent :: u32) * unat (display_blk_period hw div 100)) mod 2 ^ 32"
    by (simp add: pulse_width_def unat_word_ariths)
  also have "\<dots> = (unat percent * (unat (display_blk_period hw) div 100)) mod 2 ^ 32"
    by (simp add: unat_div unat_ucast_percent)
  also have "\<dots> = unat percent * (unat (display_blk_period hw) div 100)"
    using small by simp
  finally show ?thesis .
qed

lemma pulse_width_le_period:
  assumes "percent \<le> 100"
  shows "pulse_width hw percent \<le> display_blk_period hw"
proof -
  have "unat percent \<le> 100"
    using assms by (simp add: word_le_nat_alt)
  then have "unat percent * (unat (display_blk_period hw) div 100)
          \<le> 100 * (unat (display_blk_period hw) div 100)"
    by (rule mult_le_mono1)
  also have "\<dots> \<le> unat (display_blk_period hw)"
    by simp
  finally show ?thesis
    by (simp add: word_le_nat_alt unat_pulse_width [OF assms])
qed

lemma pulse_width_exact:
  assumes "percent \<le> 100" and "100 dvd unat (display_blk_period hw)"
  shows "unat (pulse_width hw percent) = unat percent * unat (display_blk_period hw) div 100"
  using assms(2) by (simp add: unat_pulse_width [OF assms(1)] div_mult_swap)

subsection \<open>What each operation does to the three variables\<close>

lemma set_brightness_cases:
  assumes "zsw_display_control_set_brightness hw percent s = Inr s'"
  shows "display_state s' = display_state s
       \<and> first_render_since_poweron s' = first_render_since_poweron s
       \<and> (last_brightness s' = last_brightness s
          \<or> percent \<noteq> 0 \<and> percent \<le> 100 \<and> last_brightness s' = percent)"
  using assms
  by (auto simp: zsw_display_control_set_brightness_def emit_def Let_def split: if_splits)

lemma sleep_ctrl_last_brightness:
  assumes "zsw_display_control_sleep_ctrl hw on s = Inr (res, s')"
  shows "last_brightness s' = last_brightness s"
  using assms
  by (auto simp: zsw_display_control_sleep_ctrl_def zsw_display_control_set_brightness_def
      suspend_touch_def resume_touch_def emit_def Let_def
      split: display_state_t.splits if_splits)

lemma pwr_ctrl_last_brightness:
  "last_brightness (snd (zsw_display_control_pwr_ctrl hw on s)) = last_brightness s"
  by (simp add: zsw_display_control_pwr_ctrl_def emit_def Let_def split: display_state_t.splits)

lemma lvgl_render_keeps:
  assumes "lvgl_render hw n s = Inr s'"
  shows "last_brightness s' = last_brightness s \<and> display_state s' = display_state s"
  using assms
  by (auto simp: lvgl_render_def zsw_display_control_set_brightness_def emit_def Let_def
      split: if_splits)

lemma transition_call_last_brightness:
  assumes "transition_call hw t s = Inr (res, s')"
  shows "last_brightness s' = last_brightness s"
proof (cases t)
  case (Sleep_ctrl on)
  with assms show ?thesis
    by (simp add: transition_call_def sleep_ctrl_last_brightness)
next
  case (Pwr_ctrl on)
  with assms have "s' = snd (zsw_display_control_pwr_ctrl hw on s)"
    by (auto simp: transition_call_def)
  then show ?thesis
    by (simp add: pwr_ctrl_last_brightness)
qed

lemma step_last_brightness:
  assumes "step hw c s = Inr s'"
  shows "last_brightness s' = last_brightness s
       \<or> last_brightness s' \<noteq> 0 \<and> last_brightness s' \<le> 100"
proof (cases c)
  case (Set_brightness percent)
  with assms show ?thesis
    using set_brightness_cases [of hw percent s s'] by (auto simp: step_def)
next
  case (Transition t)
  with assms show ?thesis
    by (auto simp: step_def transition_call_last_brightness split: sum.splits)
next
  case (Render n)
  with assms show ?thesis
    by (simp add: step_def lvgl_render_keeps)
qed

lemma step_nonzero:
  "step hw c s = Inr s' \<Longrightarrow> last_brightness s \<noteq> 0 \<Longrightarrow> last_brightness s' \<noteq> 0"
  using step_last_brightness [of hw c s s'] by auto

lemma step_brightness_valid:
  "step hw c s = Inr s' \<Longrightarrow> brightness_valid s \<Longrightarrow> brightness_valid s'"
  using step_last_brightness [of hw c s s'] by (auto simp: brightness_valid_def)

lemma run_nonzero:
  "run hw cs s = Inr s' \<Longrightarrow> last_brightness s \<noteq> 0 \<Longrightarrow> last_brightness s' \<noteq> 0"
proof (induction cs arbitrary: s)
  case Nil
  then show ?case by simp
next
  case (Cons c cs)
  then obtain s1 where s1: "step hw c s = Inr s1" and rest: "run hw cs s1 = Inr s'"
    by (auto split: sum.splits)
  from s1 Cons.prems(2) have "last_brightness s1 \<noteq> 0"
    by (rule step_nonzero)
  with rest show ?case
    by (rule Cons.IH)
qed

lemma run_brightness_valid:
  "run hw cs s = Inr s' \<Longrightarrow> brightness_valid s \<Longrightarrow> brightness_valid s'"
proof (induction cs arbitrary: s)
  case Nil
  then show ?case by simp
next
  case (Cons c cs)
  then obtain s1 where s1: "step hw c s = Inr s1" and rest: "run hw cs s1 = Inr s'"
    by (auto split: sum.splits)
  from s1 Cons.prems(2) have "brightness_valid s1"
    by (rule step_brightness_valid)
  with rest show ?case
    by (rule Cons.IH)
qed

lemma sleep_ctrl_first_render:
  assumes "zsw_display_control_sleep_ctrl hw on s = Inr (res, s')"
  shows "first_render_since_poweron s' = first_render_since_poweron s"
  using assms
  by (auto simp: zsw_display_control_sleep_ctrl_def zsw_display_control_set_brightness_def
      suspend_touch_def resume_touch_def emit_def Let_def
      split: display_state_t.splits if_splits)

lemma pwr_ctrl_first_render:
  "first_render_since_poweron s \<Longrightarrow>
   first_render_since_poweron (snd (zsw_display_control_pwr_ctrl hw on s))"
  by (simp add: zsw_display_control_pwr_ctrl_def emit_def Let_def split: display_state_t.splits)

lemma step_keeps_first_render:
  assumes "step hw c s = Inr s'" and "first_render_since_poweron s"
    and "case c of Render n \<Rightarrow> False | _ \<Rightarrow> True"
  shows "first_render_since_poweron s'"
proof (cases c)
  case (Set_brightness percent)
  with assms(1,2) show ?thesis
    using set_brightness_cases [of hw percent s s'] by (simp add: step_def)
next
  case (Transition t)
  show ?thesis
  proof (cases t)
    case (Sleep_ctrl on)
    with Transition assms(1) obtain res
      where "zsw_display_control_sleep_ctrl hw on s = Inr (res, s')"
      by (auto simp: step_def transition_call_def split: sum.splits)
    with assms(2) show ?thesis
      by (simp add: sleep_ctrl_first_render)
  next
    case (Pwr_ctrl on)
    with Transition assms(1) have "s' = snd (zsw_display_control_pwr_ctrl hw on s)"
      by (cases "zsw_display_control_pwr_ctrl hw on s") (simp add: step_def transition_call_def)
    with assms(2) show ?thesis
      by (simp add: pwr_ctrl_first_render)
  qed
next
  case (Render n)
  with assms(3) show ?thesis
    by simp
qed

lemma init_brightness_valid: "brightness_valid (zsw_display_control_init hw boot_state)"
  by (simp add: brightness_valid_def zsw_display_control_init_def boot_state_def)

subsection \<open>What each operation does to the display state\<close>

lemma sleep_ctrl_display_state:
  assumes "zsw_display_control_sleep_ctrl hw on s = Inr (res, s')"
  shows "(display_state s, display_state s', res) \<in>
           {(DISPLAY_STATE_AWAKE, DISPLAY_STATE_AWAKE, - EALREADY),
            (DISPLAY_STATE_AWAKE, DISPLAY_STATE_SLEEPING, 0),
            (DISPLAY_STATE_SLEEPING, DISPLAY_STATE_AWAKE, 0),
            (DISPLAY_STATE_SLEEPING, DISPLAY_STATE_SLEEPING, - EALREADY),
            (DISPLAY_STATE_POWERED_OFF, DISPLAY_STATE_POWERED_OFF, - EIO)}"
  using assms
  by (auto simp: zsw_display_control_sleep_ctrl_def zsw_display_control_set_brightness_def
      suspend_touch_def resume_touch_def emit_def Let_def
      split: display_state_t.splits if_splits)

lemma pwr_ctrl_display_state:
  assumes "zsw_display_control_pwr_ctrl hw on s = (res, s')"
  shows "(display_state s, display_state s', res) \<in>
           {(DISPLAY_STATE_AWAKE, DISPLAY_STATE_AWAKE, - EALREADY),
            (DISPLAY_STATE_SLEEPING, DISPLAY_STATE_SLEEPING, - EALREADY),
            (DISPLAY_STATE_SLEEPING, DISPLAY_STATE_POWERED_OFF, 0),
            (DISPLAY_STATE_POWERED_OFF, DISPLAY_STATE_SLEEPING, 0),
            (DISPLAY_STATE_POWERED_OFF, DISPLAY_STATE_POWERED_OFF, - EALREADY)}"
  using assms
  by (auto simp: zsw_display_control_pwr_ctrl_def emit_def Let_def
      split: display_state_t.splits if_splits)

lemma pwr_ctrl_rejected_unchanged:
  assumes "zsw_display_control_pwr_ctrl hw on s = (res, s')" and "res \<noteq> 0"
  shows "s' = s \<and> res = - EALREADY"
  using assms
  by (auto simp: zsw_display_control_pwr_ctrl_def emit_def Let_def
      split: display_state_t.splits if_splits)

lemma sleep_ctrl_rejected_unchanged:
  assumes "zsw_display_control_sleep_ctrl hw on s = Inr (res, s')" and "res \<noteq> 0"
  shows "s' = s"
  using assms
  by (auto simp: zsw_display_control_sleep_ctrl_def zsw_display_control_set_brightness_def
      suspend_touch_def resume_touch_def emit_def Let_def
      split: display_state_t.splits if_splits)

lemma transition_call_returns:
  assumes "last_brightness s \<le> 100"
  shows "\<exists>res s'. transition_call hw t s = Inr (res, s')"
proof (cases t)
  case (Sleep_ctrl on)
  show ?thesis
  proof (cases "display_state s")
    case DISPLAY_STATE_AWAKE
    then show ?thesis
      using Sleep_ctrl sleep_ctrl_awake_on [of s hw] sleep_ctrl_awake_off [of s hw]
      by (cases on) (simp_all add: transition_call_def)
  next
    case DISPLAY_STATE_SLEEPING
    then show ?thesis
      using Sleep_ctrl sleep_ctrl_sleeping_on [of s hw] sleep_ctrl_sleeping_off [of s hw] assms
      by (cases on) (simp_all add: transition_call_def)
  next
    case DISPLAY_STATE_POWERED_OFF
    then show ?thesis
      using Sleep_ctrl by (simp add: transition_call_def sleep_ctrl_powered_off)
  qed
next
  case (Pwr_ctrl on)
  then show ?thesis
    by (cases "zsw_display_control_pwr_ctrl hw on s") (simp add: transition_call_def)
qed

lemma transition_call_display_state:
  assumes "transition_call hw t s = Inr (res, s')"
  shows "\<not> skips_sleeping (display_state s) (display_state s')
       \<and> (res = 0 \<longleftrightarrow> display_state s' \<noteq> display_state s)"
proof (cases t)
  case (Sleep_ctrl on)
  with assms have "zsw_display_control_sleep_ctrl hw on s = Inr (res, s')"
    by (simp add: transition_call_def)
  from sleep_ctrl_display_state [OF this] show ?thesis
    using EALREADY_nonzero EIO_nonzero by (auto simp: skips_sleeping_def)
next
  case (Pwr_ctrl on)
  with assms have "zsw_display_control_pwr_ctrl hw on s = (res, s')"
    by (simp add: transition_call_def)
  from pwr_ctrl_display_state [OF this] show ?thesis
    using EALREADY_nonzero by (auto simp: skips_sleeping_def)
qed

lemma step_no_skip:
  assumes "step hw c s = Inr s'"
  shows "\<not> skips_sleeping (display_state s) (display_state s')"
proof (cases c)
  case (Set_brightness percent)
  with assms have "display_state s' = display_state s"
    using set_brightness_cases [of hw percent s s'] by (simp add: step_def)
  then show ?thesis
    by (cases "display_state s") (simp_all add: skips_sleeping_def)
next
  case (Transition t)
  with assms obtain res where "transition_call hw t s = Inr (res, s')"
    by (auto simp: step_def split: sum.splits)
  then show ?thesis
    by (simp add: transition_call_display_state)
next
  case (Render n)
  with assms have "display_state s' = display_state s"
    by (simp add: step_def lvgl_render_keeps)
  then show ?thesis
    by (cases "display_state s") (simp_all add: skips_sleeping_def)
qed

lemma hd_run_states: "hd (run_states hw cs s) = s"
  by (cases cs) simp_all

lemma run_states_nonempty: "run_states hw cs s \<noteq> []"
  by (cases cs) simp_all

lemma run_states_no_skip:
  "successively (\<lambda>a b. \<not> skips_sleeping (display_state a) (display_state b))
     (run_states hw cs s)"
proof (induction cs arbitrary: s)
  case Nil
  show ?case by simp
next
  case (Cons c cs)
  show ?case
  proof (cases "step hw c s")
    case (Inl e)
    then show ?thesis by simp
  next
    case (Inr s1)
    have "\<not> skips_sleeping (display_state s) (display_state (hd (run_states hw cs s1)))"
      using step_no_skip [OF Inr] by (simp add: hd_run_states)
    with Inr Cons.IH [of s1] show ?thesis
      by (simp add: successively_Cons)
  qed
qed

subsection \<open>The example boards and states, evaluated\<close>

lemma example_states:
  "display_state sleeping_state = DISPLAY_STATE_SLEEPING"
  "display_state awake_state = DISPLAY_STATE_AWAKE"
  "display_state powered_off_state = DISPLAY_STATE_POWERED_OFF"
  "last_brightness sleeping_state = 30"
  "last_brightness awake_state = 30"
  "last_brightness powered_off_state = 30"
  "first_render_since_poweron sleeping_state = False"
  "first_render_since_poweron awake_state = False"
  "first_render_since_poweron powered_off_state = False"
  "effects sleeping_state = []"
  "effects awake_state = []"
  "effects powered_off_state = []"
  by (simp_all add: sleeping_state_def awake_state_def powered_off_state_def
      zsw_display_control_init_def boot_state_def)

lemma example_boards:
  "display_blk_ready full_board" "reg_dev_ready full_board" "touch_dev_ready full_board"
  "display_dev_ready full_board" "\<not> board_native_posix full_board"
  "display_blk_period full_board = 20000000"
  "\<not> display_blk_ready bare_board" "\<not> reg_dev_ready bare_board"
  "\<not> touch_dev_ready bare_board" "\<not> display_dev_ready bare_board"
  "\<not> board_native_posix bare_board"
  "display_blk_ready odd_period_board" "display_blk_period odd_period_board = 150"
  "reg_dev_ready posix_board" "board_native_posix posix_board"
  "\<not> display_blk_ready regulator_only_board" "reg_dev_ready regulator_only_board"
  "\<not> touch_dev_ready regulator_only_board" "\<not> display_dev_ready regulator_only_board"
  "\<not> board_native_posix regulator_only_board"
  by (simp_all add: full_board_def bare_board_def odd_period_board_def posix_board_def
      regulator_only_board_def)

lemma first_render_state_simps:
  "display_state first_render_state = DISPLAY_STATE_SLEEPING"
  "first_render_since_poweron first_render_state"
  "last_brightness first_render_state = 30"
  "effects first_render_state = []"
  by (simp_all add: first_render_state_def example_states)

lemma pulse_width_full_board_30: "pulse_width full_board 30 = 6000000"
  by (simp add: pulse_width_def example_boards)

lemmas run_defs = step_def transition_call_def zsw_display_control_sleep_ctrl_def
  zsw_display_control_pwr_ctrl_def zsw_display_control_set_brightness_def lvgl_render_def
  zsw_display_control_get_brightness_def
  suspend_touch_def resume_touch_def pulse_width_def emit_def Let_def

lemma run_example:
  "run full_board [Set_brightness 80, Transition (Sleep_ctrl True), Set_brightness 0,
       Transition (Sleep_ctrl False), Transition (Pwr_ctrl False)] sleeping_state =
     Inr \<lparr>display_state = DISPLAY_STATE_POWERED_OFF, first_render_since_poweron = False,
          last_brightness = 80,
          effects = [Pwm_set_pulse_dt 16000000,
                     Pm_device_action_run Display_dev PM_DEVICE_ACTION_RESUME,
                     Pm_device_action_run Touch_dev PM_DEVICE_ACTION_RESUME,
                     Pwm_set_pulse_dt 16000000, Display_blanking_off, K_work_schedule 250,
                     Pwm_set_pulse_dt 0,
                     Display_blanking_on,
                     Pm_device_action_run Display_dev PM_DEVICE_ACTION_SUSPEND,
                     Pm_device_action_run Touch_dev PM_DEVICE_ACTION_SUSPEND,
                     Pwm_set_pulse_dt 0, K_work_cancel_delayable_sync, Lv_obj_invalidate,
                     Regulator_disable,
                     Pm_device_action_run Display_dev PM_DEVICE_ACTION_TURN_OFF]\<rparr>"
  by (simp add: run_defs example_boards example_states)

section \<open>The sleep transition table\<close>

text \<open>
  Claim C1.  In every display state \<open>zsw_display_control_sleep_ctrl\<close> does what the sleep
  transition table says: from Awake, \<open>on = true\<close> changes nothing and returns
  \<open>-EALREADY\<close>, \<open>on = false\<close> moves to Sleeping and returns 0; from Sleeping,
  \<open>on = true\<close> moves to Awake and returns 0, \<open>on = false\<close> changes nothing and returns
  \<open>-EALREADY\<close>; from PoweredOff both requests change nothing and return \<open>-EIO\<close>.
  The hypothesis is the range of \<open>last_brightness\<close>, which holds in every state the
  program reaches (\<open>run_brightness_valid\<close>, \<open>init_brightness_valid\<close>); it keeps the
  assertion of \<open>zsw_display_control_set_brightness\<close> from firing during the wake-up.
\<close>

theorem sleep_ctrl_follows_table:
  assumes "last_brightness s \<le> 100"
  shows "case display_state s of
           DISPLAY_STATE_AWAKE \<Rightarrow>
             zsw_display_control_sleep_ctrl hw True s = Inr (- EALREADY, s)
             \<and> (\<exists>s'. zsw_display_control_sleep_ctrl hw False s = Inr (0, s')
                     \<and> display_state s' = DISPLAY_STATE_SLEEPING)
         | DISPLAY_STATE_SLEEPING \<Rightarrow>
             (\<exists>s'. zsw_display_control_sleep_ctrl hw True s = Inr (0, s')
                   \<and> display_state s' = DISPLAY_STATE_AWAKE)
             \<and> zsw_display_control_sleep_ctrl hw False s = Inr (- EALREADY, s)
         | DISPLAY_STATE_POWERED_OFF \<Rightarrow>
             zsw_display_control_sleep_ctrl hw True s = Inr (- EIO, s)
             \<and> zsw_display_control_sleep_ctrl hw False s = Inr (- EIO, s)"
proof (cases "display_state s")
  case DISPLAY_STATE_AWAKE
  then show ?thesis
    by (simp add: sleep_ctrl_awake_on sleep_ctrl_awake_off)
next
  case DISPLAY_STATE_SLEEPING
  with assms show ?thesis
    by (simp add: sleep_ctrl_sleeping_on sleep_ctrl_sleeping_off)
next
  case DISPLAY_STATE_POWERED_OFF
  then show ?thesis
    by (simp add: sleep_ctrl_powered_off)
qed

theorem sleep_ctrl_follows_table_witness:
  "last_brightness sleeping_state \<le> 100
   \<and> (\<exists>s'. zsw_display_control_sleep_ctrl full_board True sleeping_state = Inr (0, s')
           \<and> display_state s' = DISPLAY_STATE_AWAKE)
   \<and> zsw_display_control_sleep_ctrl full_board False sleeping_state
       = Inr (- EALREADY, sleeping_state)"
  using sleep_ctrl_follows_table [where s = sleeping_state and hw = full_board]
  by (simp add: example_states)

section \<open>The power transition table\<close>

text \<open>
  Claim C2 says that \<open>zsw_display_control_pwr_ctrl\<close> answers a regulator that is not
  ready with \<open>-EIO\<close>, and that a power-off always disables the regulator.  The
  function never assigns \<open>-EIO\<close>: with the regulator not ready \<open>res\<close> keeps its initial
  value \<open>-EALREADY\<close>.  And where \<open>CONFIG_BOARD_NATIVE_POSIX\<close> is defined the regulator
  call is compiled out.
\<close>

theorem pwr_ctrl_not_ready_counterexample:
  "\<not> reg_dev_ready bare_board
   \<and> display_state sleeping_state = DISPLAY_STATE_SLEEPING
   \<and> zsw_display_control_pwr_ctrl bare_board False sleeping_state = (- EALREADY, sleeping_state)
   \<and> fst (zsw_display_control_pwr_ctrl bare_board False sleeping_state) \<noteq> - EIO
   \<and> display_state powered_off_state = DISPLAY_STATE_POWERED_OFF
   \<and> zsw_display_control_pwr_ctrl bare_board True powered_off_state
       = (- EALREADY, powered_off_state)
   \<and> fst (zsw_display_control_pwr_ctrl bare_board True powered_off_state) \<noteq> - EIO
   \<and> reg_dev_ready posix_board
   \<and> Regulator_disable \<notin>
       set (effects (snd (zsw_display_control_pwr_ctrl posix_board False sleeping_state)))"
  by (simp add: example_states example_boards pwr_ctrl_sleeping_off pwr_ctrl_powered_off_on
      EIO_def EALREADY_def)

text \<open>
  Claim C2, amended.  \<open>zsw_display_control_pwr_ctrl\<close> follows the power transition
  table with \<open>-EALREADY\<close> as its only rejection: from Sleeping with \<open>on = false\<close> and
  from PoweredOff with \<open>on = true\<close>, a ready regulator gives the transition (regulator
  command unless compiled out for the native POSIX board, then the panel's turn-off or
  turn-on action, and \<open>first_render_since_poweron\<close> set on power-on) and the result 0; a
  regulator that is not ready gives no change and \<open>-EALREADY\<close>.  Every other
  combination changes nothing and returns \<open>-EALREADY\<close>.
\<close>

theorem pwr_ctrl_follows_code_table:
  "case display_state s of
     DISPLAY_STATE_AWAKE \<Rightarrow> zsw_display_control_pwr_ctrl hw on s = (- EALREADY, s)
   | DISPLAY_STATE_SLEEPING \<Rightarrow>
       zsw_display_control_pwr_ctrl hw True s = (- EALREADY, s)
       \<and> zsw_display_control_pwr_ctrl hw False s =
           (if reg_dev_ready hw
            then (0, s\<lparr>display_state := DISPLAY_STATE_POWERED_OFF,
                       effects := effects s
                         @ (if board_native_posix hw then [] else [Regulator_disable])
                         @ [Pm_device_action_run Display_dev PM_DEVICE_ACTION_TURN_OFF]\<rparr>)
            else (- EALREADY, s))
   | DISPLAY_STATE_POWERED_OFF \<Rightarrow>
       zsw_display_control_pwr_ctrl hw True s =
           (if reg_dev_ready hw
            then (0, s\<lparr>display_state := DISPLAY_STATE_SLEEPING,
                       first_render_since_poweron := True,
                       effects := effects s
                         @ (if board_native_posix hw then [] else [Regulator_enable])
                         @ [Pm_device_action_run Display_dev PM_DEVICE_ACTION_TURN_ON]\<rparr>)
            else (- EALREADY, s))
       \<and> zsw_display_control_pwr_ctrl hw False s = (- EALREADY, s)"
proof (cases "display_state s")
  case DISPLAY_STATE_AWAKE
  then show ?thesis
    by (simp add: pwr_ctrl_awake)
next
  case DISPLAY_STATE_SLEEPING
  then show ?thesis
    by (simp add: pwr_ctrl_sleeping_on pwr_ctrl_sleeping_off)
next
  case DISPLAY_STATE_POWERED_OFF
  then show ?thesis
    by (simp add: pwr_ctrl_powered_off_on pwr_ctrl_powered_off_off)
qed

theorem pwr_ctrl_follows_code_table_witness:
  "zsw_display_control_pwr_ctrl full_board True sleeping_state = (- EALREADY, sleeping_state)
   \<and> zsw_display_control_pwr_ctrl full_board False sleeping_state =
       (0, sleeping_state\<lparr>display_state := DISPLAY_STATE_POWERED_OFF,
             effects := [Regulator_disable,
                         Pm_device_action_run Display_dev PM_DEVICE_ACTION_TURN_OFF]\<rparr>)
   \<and> zsw_display_control_pwr_ctrl bare_board False sleeping_state = (- EALREADY, sleeping_state)
   \<and> zsw_display_control_pwr_ctrl bare_board True powered_off_state
       = (- EALREADY, powered_off_state)
   \<and> zsw_display_control_pwr_ctrl full_board False awake_state = (- EALREADY, awake_state)"
  using pwr_ctrl_follows_code_table [where s = sleeping_state and hw = full_board]
    pwr_ctrl_follows_code_table [where s = sleeping_state and hw = bare_board]
    pwr_ctrl_follows_code_table [where s = powered_off_state and hw = bare_board]
    pwr_ctrl_follows_code_table [where s = awake_state and hw = full_board and on = False]
  by (simp add: example_states example_boards)

section \<open>Rejections leave no trace\<close>

lemma pwr_ctrl_not_ready:
  "\<not> reg_dev_ready hw \<Longrightarrow> zsw_display_control_pwr_ctrl hw on s = (- EALREADY, s)"
  by (simp add: zsw_display_control_pwr_ctrl_def split: display_state_t.splits)

lemma transition_call_rejected_unchanged:
  assumes "transition_call hw t s = Inr (res, s')" and "res \<noteq> 0"
  shows "s' = s"
proof (cases t)
  case (Sleep_ctrl b)
  with assms(1) have "zsw_display_control_sleep_ctrl hw b s = Inr (res, s')"
    by (simp add: transition_call_def)
  then show ?thesis
    using assms(2) by (rule sleep_ctrl_rejected_unchanged)
next
  case (Pwr_ctrl b)
  with assms(1) have "zsw_display_control_pwr_ctrl hw b s = (res, s')"
    by (simp add: transition_call_def)
  then show ?thesis
    using assms(2) pwr_ctrl_rejected_unchanged [of hw b s res s'] by simp
qed

text \<open>
  Claim C3.  A call of \<open>zsw_display_control_sleep_ctrl\<close> or
  \<open>zsw_display_control_pwr_ctrl\<close> that returns \<open>-EIO\<close> leaves the whole state as it
  was: the three variables are unchanged and no driver, work-queue or LVGL call was
  made.  Only the sleep entry point ever returns \<open>-EIO\<close>; the power entry point never
  does.  Its refusals for a regulator that is not ready carry \<open>-EALREADY\<close>, and they
  leave the whole state as it was too: with the regulator not ready every call of
  \<open>zsw_display_control_pwr_ctrl\<close> returns \<open>-EALREADY\<close> and the state it was given.
  More generally, every call of either entry point with a result other than 0 leaves
  the whole state as it was.
\<close>

theorem hardware_unavailable_no_effect:
  "(transition_call hw t s = Inr (- EIO, s') \<longrightarrow> s' = s)
   \<and> fst (zsw_display_control_pwr_ctrl hw on s) \<noteq> - EIO
   \<and> (\<not> reg_dev_ready hw \<longrightarrow>
        zsw_display_control_pwr_ctrl hw on s = (- EALREADY, s))
   \<and> (transition_call hw t s = Inr (res, s') \<and> res \<noteq> 0 \<longrightarrow> s' = s)"
proof (intro conjI impI)
  assume "transition_call hw t s = Inr (- EIO, s')"
  then show "s' = s"
    using EIO_nonzero by (rule transition_call_rejected_unchanged)
next
  show "fst (zsw_display_control_pwr_ctrl hw on s) \<noteq> - EIO"
    using pwr_ctrl_display_state [of hw on s "fst (zsw_display_control_pwr_ctrl hw on s)"
        "snd (zsw_display_control_pwr_ctrl hw on s)"] EIO_nonzero EIO_not_EALREADY
    by auto
next
  assume "\<not> reg_dev_ready hw"
  then show "zsw_display_control_pwr_ctrl hw on s = (- EALREADY, s)"
    by (rule pwr_ctrl_not_ready)
next
  assume "transition_call hw t s = Inr (res, s') \<and> res \<noteq> 0"
  then have "transition_call hw t s = Inr (res, s')" and "res \<noteq> 0"
    by simp_all
  then show "s' = s"
    by (rule transition_call_rejected_unchanged)
qed

theorem hardware_unavailable_no_effect_witness:
  "transition_call full_board (Sleep_ctrl True) powered_off_state = Inr (- EIO, powered_off_state)
   \<and> fst (zsw_display_control_pwr_ctrl full_board True powered_off_state) \<noteq> - EIO
   \<and> \<not> reg_dev_ready bare_board
   \<and> zsw_display_control_pwr_ctrl bare_board False sleeping_state
       = (- EALREADY, sleeping_state)
   \<and> zsw_display_control_pwr_ctrl bare_board True powered_off_state
       = (- EALREADY, powered_off_state)
   \<and> transition_call bare_board (Pwr_ctrl False) sleeping_state
       = Inr (- EALREADY, sleeping_state)
   \<and> transition_call bare_board (Pwr_ctrl True) powered_off_state
       = Inr (- EALREADY, powered_off_state)
   \<and> - EALREADY \<noteq> 0"
  using hardware_unavailable_no_effect [where hw = full_board and t = "Sleep_ctrl True"
      and s = powered_off_state and s' = powered_off_state and on = True and res = "- EIO"]
    hardware_unavailable_no_effect [where hw = bare_board and t = "Pwr_ctrl False"
      and s = sleeping_state and s' = sleeping_state and on = False and res = "- EALREADY"]
    hardware_unavailable_no_effect [where hw = bare_board and t = "Pwr_ctrl True"
      and s = powered_off_state and s' = powered_off_state and on = True
      and res = "- EALREADY"]
  by (simp add: transition_call_def sleep_ctrl_powered_off example_states example_boards
      EALREADY_def)

section \<open>The backlight after a power-on\<close>

text \<open>
  Claim C4.  A power-on from PoweredOff sets \<open>first_render_since_poweron\<close>.  A wake-up
  from Sleeping with the flag set issues no backlight command, and no call other than
  the render work clears the flag.  The render work, run
  with the flag set, then sets the brightness to \<open>last_brightness\<close> through
  \<open>zsw_display_control_set_brightness\<close> and clears the flag.  A wake-up with the flag
  clear sets the brightness to \<open>last_brightness\<close> during the transition.
\<close>

theorem backlight_deferred_to_first_render:
  "(display_state s = DISPLAY_STATE_POWERED_OFF \<and> reg_dev_ready hw \<longrightarrow>
      fst (zsw_display_control_pwr_ctrl hw True s) = 0
      \<and> first_render_since_poweron (snd (zsw_display_control_pwr_ctrl hw True s))
      \<and> display_state (snd (zsw_display_control_pwr_ctrl hw True s)) = DISPLAY_STATE_SLEEPING)
   \<and> (display_state s = DISPLAY_STATE_SLEEPING \<and> first_render_since_poweron s \<longrightarrow>
      zsw_display_control_sleep_ctrl hw True s =
        Inr (0, s\<lparr>display_state := DISPLAY_STATE_AWAKE,
                  effects := effects s
                    @ [Pm_device_action_run Display_dev PM_DEVICE_ACTION_RESUME]
                    @ (if touch_dev_ready hw
                       then [Pm_device_action_run Touch_dev PM_DEVICE_ACTION_RESUME] else [])
                    @ [Display_blanking_off, K_work_schedule 250]\<rparr>))
   \<and> (first_render_since_poweron s \<and> (case c of Render d \<Rightarrow> False | _ \<Rightarrow> True)
        \<and> step hw c s = Inr s' \<longrightarrow>
      first_render_since_poweron s')
   \<and> (first_render_since_poweron s \<and> last_brightness s \<le> 100 \<longrightarrow>
      lvgl_render hw n s =
        Inr (s\<lparr>first_render_since_poweron := False,
                effects := effects s @ [Lv_task_handler]
                  @ (if display_blk_ready hw
                     then [Pwm_set_pulse_dt (pulse_width hw (last_brightness s))] else [])
                  @ [K_work_schedule n]\<rparr>))
   \<and> (display_state s = DISPLAY_STATE_SLEEPING \<and> \<not> first_render_since_poweron s
        \<and> last_brightness s \<le> 100 \<longrightarrow>
      zsw_display_control_sleep_ctrl hw True s =
        Inr (0, s\<lparr>display_state := DISPLAY_STATE_AWAKE,
                  effects := effects s
                    @ [Pm_device_action_run Display_dev PM_DEVICE_ACTION_RESUME]
                    @ (if touch_dev_ready hw
                       then [Pm_device_action_run Touch_dev PM_DEVICE_ACTION_RESUME] else [])
                    @ (if display_blk_ready hw
                       then [Pwm_set_pulse_dt (pulse_width hw (last_brightness s))] else [])
                    @ [Display_blanking_off, K_work_schedule 250]\<rparr>))"
proof (intro conjI impI)
  assume "display_state s = DISPLAY_STATE_POWERED_OFF \<and> reg_dev_ready hw"
  then have on: "zsw_display_control_pwr_ctrl hw True s =
      (0, s\<lparr>display_state := DISPLAY_STATE_SLEEPING, first_render_since_poweron := True,
             effects := effects s
               @ (if board_native_posix hw then [] else [Regulator_enable])
               @ [Pm_device_action_run Display_dev PM_DEVICE_ACTION_TURN_ON]\<rparr>)"
    by (simp add: pwr_ctrl_powered_off_on)
  show "fst (zsw_display_control_pwr_ctrl hw True s) = 0"
    by (simp add: on)
  show "first_render_since_poweron (snd (zsw_display_control_pwr_ctrl hw True s))"
    by (simp add: on)
  show "display_state (snd (zsw_display_control_pwr_ctrl hw True s)) = DISPLAY_STATE_SLEEPING"
    by (simp add: on)
next
  assume "display_state s = DISPLAY_STATE_SLEEPING \<and> first_render_since_poweron s"
  then show "zsw_display_control_sleep_ctrl hw True s =
        Inr (0, s\<lparr>display_state := DISPLAY_STATE_AWAKE,
                  effects := effects s
                    @ [Pm_device_action_run Display_dev PM_DEVICE_ACTION_RESUME]
                    @ (if touch_dev_ready hw
                       then [Pm_device_action_run Touch_dev PM_DEVICE_ACTION_RESUME] else [])
                    @ [Display_blanking_off, K_work_schedule 250]\<rparr>)"
    by (simp add: zsw_display_control_sleep_ctrl_def resume_touch_def emit_def Let_def)
next
  assume "first_render_since_poweron s \<and> (case c of Render d \<Rightarrow> False | _ \<Rightarrow> True)
        \<and> step hw c s = Inr s'"
  then have "step hw c s = Inr s'" and "first_render_since_poweron s"
    and "case c of Render d \<Rightarrow> False | _ \<Rightarrow> True"
    by simp_all
  then show "first_render_since_poweron s'"
    by (rule step_keeps_first_render)
next
  assume "first_render_since_poweron s \<and> last_brightness s \<le> 100"
  then show "lvgl_render hw n s =
        Inr (s\<lparr>first_render_since_poweron := False,
                effects := effects s @ [Lv_task_handler]
                  @ (if display_blk_ready hw
                     then [Pwm_set_pulse_dt (pulse_width hw (last_brightness s))] else [])
                  @ [K_work_schedule n]\<rparr>)"
    by (simp add: lvgl_render_first)
next
  assume "display_state s = DISPLAY_STATE_SLEEPING \<and> \<not> first_render_since_poweron s
        \<and> last_brightness s \<le> 100"
  then show "zsw_display_control_sleep_ctrl hw True s =
        Inr (0, s\<lparr>display_state := DISPLAY_STATE_AWAKE,
                  effects := effects s
                    @ [Pm_device_action_run Display_dev PM_DEVICE_ACTION_RESUME]
                    @ (if touch_dev_ready hw
                       then [Pm_device_action_run Touch_dev PM_DEVICE_ACTION_RESUME] else [])
                    @ (if display_blk_ready hw
                       then [Pwm_set_pulse_dt (pulse_width hw (last_brightness s))] else [])
                    @ [Display_blanking_off, K_work_schedule 250]\<rparr>)"
    by (simp add: sleep_ctrl_sleeping_on)
qed

theorem backlight_deferred_to_first_render_witness:
  "fst (zsw_display_control_pwr_ctrl full_board True powered_off_state) = 0
   \<and> first_render_since_poweron
       (snd (zsw_display_control_pwr_ctrl full_board True powered_off_state))
   \<and> zsw_display_control_sleep_ctrl full_board True first_render_state =
       Inr (0, first_render_state\<lparr>display_state := DISPLAY_STATE_AWAKE,
                 effects := [Pm_device_action_run Display_dev PM_DEVICE_ACTION_RESUME,
                             Pm_device_action_run Touch_dev PM_DEVICE_ACTION_RESUME,
                             Display_blanking_off, K_work_schedule 250]\<rparr>)
   \<and> step full_board (Set_brightness 0) first_render_state =
       Inr (first_render_state\<lparr>effects := [Pwm_set_pulse_dt 0]\<rparr>)
   \<and> first_render_since_poweron (first_render_state\<lparr>effects := [Pwm_set_pulse_dt 0]\<rparr>)
   \<and> lvgl_render full_board 5 first_render_state =
       Inr (sleeping_state\<lparr>effects :=
              [Lv_task_handler, Pwm_set_pulse_dt 6000000, K_work_schedule 5]\<rparr>)
   \<and> zsw_display_control_sleep_ctrl full_board True sleeping_state =
       Inr (0, sleeping_state\<lparr>display_state := DISPLAY_STATE_AWAKE,
                 effects := [Pm_device_action_run Display_dev PM_DEVICE_ACTION_RESUME,
                             Pm_device_action_run Touch_dev PM_DEVICE_ACTION_RESUME,
                             Pwm_set_pulse_dt 6000000,
                             Display_blanking_off, K_work_schedule 250]\<rparr>)"
  using backlight_deferred_to_first_render [where s = powered_off_state and hw = full_board]
    backlight_deferred_to_first_render [where s = first_render_state and hw = full_board
      and n = 5 and c = "Set_brightness 0"
      and s' = "first_render_state\<lparr>effects := [Pwm_set_pulse_dt 0]\<rparr>"]
    backlight_deferred_to_first_render [where s = sleeping_state and hw = full_board]
  by (simp add: first_render_state_simps example_states example_boards
      pulse_width_full_board_30 step_def set_brightness_zero emit_def)

section \<open>The remembered brightness is never zero\<close>

text \<open>
  Claim C5.  After any sequence of calls from the state the program starts in, and
  after any sequence that follows an effective \<open>set_brightness\<close> with a non-zero
  percentage from any state whatsoever, \<open>zsw_display_control_get_brightness\<close> is not 0.
  A request for 0 percent, also the one made by the sleep transition, leaves the
  remembered value as it was.
\<close>

theorem get_brightness_never_zero:
  "(run hw cs (zsw_display_control_init hw boot_state) = Inr s1 \<longrightarrow>
      zsw_display_control_get_brightness s1 \<noteq> 0)
   \<and> (display_blk_ready hw \<and> percent \<noteq> 0
        \<and> run hw (Set_brightness percent # cs) s = Inr s2 \<longrightarrow>
      zsw_display_control_get_brightness s2 \<noteq> 0)
   \<and> (zsw_display_control_set_brightness hw 0 s = Inr s3 \<longrightarrow>
      zsw_display_control_get_brightness s3 = zsw_display_control_get_brightness s)
   \<and> (display_state s = DISPLAY_STATE_AWAKE
        \<and> zsw_display_control_sleep_ctrl hw False s = Inr (res, s4) \<longrightarrow>
      res = 0 \<and> zsw_display_control_get_brightness s4 = zsw_display_control_get_brightness s)"
proof (intro conjI impI)
  assume "run hw cs (zsw_display_control_init hw boot_state) = Inr s1"
  moreover have "last_brightness (zsw_display_control_init hw boot_state) \<noteq> 0"
    by (simp add: zsw_display_control_init_def boot_state_def)
  ultimately show "zsw_display_control_get_brightness s1 \<noteq> 0"
    unfolding zsw_display_control_get_brightness_def by (rule run_nonzero)
next
  assume a: "display_blk_ready hw \<and> percent \<noteq> 0
    \<and> run hw (Set_brightness percent # cs) s = Inr s2"
  then obtain s' where set: "zsw_display_control_set_brightness hw percent s = Inr s'"
    and rest: "run hw cs s' = Inr s2"
    by (auto simp: step_def split: sum.splits)
  from set a have "last_brightness s' = percent"
    by (auto simp: zsw_display_control_set_brightness_def emit_def split: if_splits)
  with a have "last_brightness s' \<noteq> 0"
    by simp
  with rest show "zsw_display_control_get_brightness s2 \<noteq> 0"
    unfolding zsw_display_control_get_brightness_def by (rule run_nonzero)
next
  assume "zsw_display_control_set_brightness hw 0 s = Inr s3"
  then show "zsw_display_control_get_brightness s3 = zsw_display_control_get_brightness s"
    by (auto simp: set_brightness_zero zsw_display_control_get_brightness_def emit_def
        split: if_splits)
next
  assume a: "display_state s = DISPLAY_STATE_AWAKE
    \<and> zsw_display_control_sleep_ctrl hw False s = Inr (res, s4)"
  then have awake: "display_state s = DISPLAY_STATE_AWAKE"
    and call: "zsw_display_control_sleep_ctrl hw False s = Inr (res, s4)"
    by simp_all
  from call show "res = 0"
    by (simp add: sleep_ctrl_awake_off [OF awake])
  from call show "zsw_display_control_get_brightness s4 = zsw_display_control_get_brightness s"
    unfolding zsw_display_control_get_brightness_def by (rule sleep_ctrl_last_brightness)
qed

theorem get_brightness_never_zero_witness:
  "run full_board [Transition (Sleep_ctrl True), Set_brightness 0]
       (zsw_display_control_init full_board boot_state) =
     Inr (awake_state\<lparr>effects :=
            [Pm_device_action_run Display_dev PM_DEVICE_ACTION_RESUME,
             Pm_device_action_run Touch_dev PM_DEVICE_ACTION_RESUME,
             Pwm_set_pulse_dt 6000000, Display_blanking_off, K_work_schedule 250,
             Pwm_set_pulse_dt 0]\<rparr>)
   \<and> zsw_display_control_get_brightness (awake_state\<lparr>effects :=
            [Pm_device_action_run Display_dev PM_DEVICE_ACTION_RESUME,
             Pm_device_action_run Touch_dev PM_DEVICE_ACTION_RESUME,
             Pwm_set_pulse_dt 6000000, Display_blanking_off, K_work_schedule 250,
             Pwm_set_pulse_dt 0]\<rparr>) \<noteq> 0
   \<and> display_blk_ready full_board \<and> (80 :: u8) \<noteq> 0
   \<and> run full_board [Set_brightness 80, Transition (Sleep_ctrl True), Set_brightness 0]
       awake_state =
     Inr (awake_state\<lparr>last_brightness := 80,
            effects := [Pwm_set_pulse_dt 16000000, Pwm_set_pulse_dt 0]\<rparr>)
   \<and> zsw_display_control_get_brightness (awake_state\<lparr>last_brightness := 80,
            effects := [Pwm_set_pulse_dt 16000000, Pwm_set_pulse_dt 0]\<rparr>) \<noteq> 0
   \<and> zsw_display_control_set_brightness full_board 0 awake_state =
     Inr (awake_state\<lparr>effects := [Pwm_set_pulse_dt 0]\<rparr>)
   \<and> zsw_display_control_get_brightness (awake_state\<lparr>effects := [Pwm_set_pulse_dt 0]\<rparr>)
       = zsw_display_control_get_brightness awake_state
   \<and> display_state awake_state = DISPLAY_STATE_AWAKE
   \<and> zsw_display_control_sleep_ctrl full_board False awake_state =
     Inr (0, sleeping_state\<lparr>effects :=
            [Display_blanking_on, Pm_device_action_run Display_dev PM_DEVICE_ACTION_SUSPEND,
             Pm_device_action_run Touch_dev PM_DEVICE_ACTION_SUSPEND, Pwm_set_pulse_dt 0,
             K_work_cancel_delayable_sync, Lv_obj_invalidate]\<rparr>)
   \<and> zsw_display_control_get_brightness (sleeping_state\<lparr>effects :=
            [Display_blanking_on, Pm_device_action_run Display_dev PM_DEVICE_ACTION_SUSPEND,
             Pm_device_action_run Touch_dev PM_DEVICE_ACTION_SUSPEND, Pwm_set_pulse_dt 0,
             K_work_cancel_delayable_sync, Lv_obj_invalidate]\<rparr>)
       = zsw_display_control_get_brightness awake_state"
proof -
  let ?cs = "[Transition (Sleep_ctrl True), Set_brightness 0]"
  let ?s1 = "awake_state\<lparr>effects :=
            [Pm_device_action_run Display_dev PM_DEVICE_ACTION_RESUME,
             Pm_device_action_run Touch_dev PM_DEVICE_ACTION_RESUME,
             Pwm_set_pulse_dt 6000000, Display_blanking_off, K_work_schedule 250,
             Pwm_set_pulse_dt 0]\<rparr>"
  let ?s2 = "awake_state\<lparr>last_brightness := 80,
            effects := [Pwm_set_pulse_dt 16000000, Pwm_set_pulse_dt 0]\<rparr>"
  let ?s3 = "awake_state\<lparr>effects := [Pwm_set_pulse_dt 0]\<rparr>"
  let ?s4 = "sleeping_state\<lparr>effects :=
            [Display_blanking_on, Pm_device_action_run Display_dev PM_DEVICE_ACTION_SUSPEND,
             Pm_device_action_run Touch_dev PM_DEVICE_ACTION_SUSPEND, Pwm_set_pulse_dt 0,
             K_work_cancel_delayable_sync, Lv_obj_invalidate]\<rparr>"
  have r1: "run full_board ?cs (zsw_display_control_init full_board boot_state) = Inr ?s1"
    by (simp add: run_defs example_boards awake_state_def sleeping_state_def
        zsw_display_control_init_def boot_state_def)
  have r2: "run full_board (Set_brightness 80 # ?cs) awake_state = Inr ?s2"
    by (simp add: run_defs example_boards awake_state_def sleeping_state_def
        zsw_display_control_init_def boot_state_def)
  have r3: "zsw_display_control_set_brightness full_board 0 awake_state = Inr ?s3"
    by (simp add: run_defs example_boards example_states)
  have r4: "zsw_display_control_sleep_ctrl full_board False awake_state = Inr (0, ?s4)"
    by (simp add: run_defs example_boards awake_state_def sleeping_state_def
        zsw_display_control_init_def boot_state_def)
  have ready: "display_blk_ready full_board" and nz: "(80 :: u8) \<noteq> 0"
    and awake: "display_state awake_state = DISPLAY_STATE_AWAKE"
    by (simp_all add: example_boards example_states)
  from get_brightness_never_zero [where hw = full_board and cs = ?cs and s = awake_state
      and percent = 80 and ?s1.0 = ?s1 and ?s2.0 = ?s2 and ?s3.0 = ?s3 and ?s4.0 = ?s4
      and res = 0]
  show ?thesis
    using r1 r2 r3 r4 ready nz awake by blast
qed

section \<open>No step between Awake and PoweredOff\<close>

text \<open>
  Claim C6.  Along every sequence of calls no two consecutive display states are Awake
  and PoweredOff, in either order; \<open>zsw_display_control_pwr_ctrl(false)\<close> in Awake changes
  nothing and returns \<open>-EALREADY\<close>; a step that enters or leaves PoweredOff comes from or
  goes to Sleeping.
\<close>

theorem never_between_awake_and_powered_off:
  "successively (\<lambda>a b. \<not> skips_sleeping (display_state a) (display_state b))
     (run_states hw cs s)
   \<and> (display_state s = DISPLAY_STATE_AWAKE \<longrightarrow>
        zsw_display_control_pwr_ctrl hw False s = (- EALREADY, s))
   \<and> (step hw c s = Inr s' \<and> display_state s' \<noteq> display_state s
        \<and> (display_state s' = DISPLAY_STATE_POWERED_OFF
           \<or> display_state s = DISPLAY_STATE_POWERED_OFF) \<longrightarrow>
        display_state s = DISPLAY_STATE_SLEEPING \<or> display_state s' = DISPLAY_STATE_SLEEPING)"
proof (intro conjI impI)
  show "successively (\<lambda>a b. \<not> skips_sleeping (display_state a) (display_state b))
     (run_states hw cs s)"
    by (rule run_states_no_skip)
next
  assume "display_state s = DISPLAY_STATE_AWAKE"
  then show "zsw_display_control_pwr_ctrl hw False s = (- EALREADY, s)"
    by (rule pwr_ctrl_awake)
next
  assume a: "step hw c s = Inr s' \<and> display_state s' \<noteq> display_state s
        \<and> (display_state s' = DISPLAY_STATE_POWERED_OFF
           \<or> display_state s = DISPLAY_STATE_POWERED_OFF)"
  then have "step hw c s = Inr s'"
    by simp
  then have "\<not> skips_sleeping (display_state s) (display_state s')"
    by (rule step_no_skip)
  with a show "display_state s = DISPLAY_STATE_SLEEPING
      \<or> display_state s' = DISPLAY_STATE_SLEEPING"
    by (cases "display_state s"; cases "display_state s'") (auto simp: skips_sleeping_def)
qed

theorem never_between_awake_and_powered_off_witness:
  "map display_state
     (run_states full_board
        [Transition (Pwr_ctrl False), Transition (Sleep_ctrl False),
         Transition (Pwr_ctrl False), Transition (Pwr_ctrl True), Transition (Sleep_ctrl True)]
        awake_state)
     = [DISPLAY_STATE_AWAKE, DISPLAY_STATE_AWAKE, DISPLAY_STATE_SLEEPING,
        DISPLAY_STATE_POWERED_OFF, DISPLAY_STATE_SLEEPING, DISPLAY_STATE_AWAKE]
   \<and> successively (\<lambda>a b. \<not> skips_sleeping (display_state a) (display_state b))
       (run_states full_board
          [Transition (Pwr_ctrl False), Transition (Sleep_ctrl False),
           Transition (Pwr_ctrl False), Transition (Pwr_ctrl True), Transition (Sleep_ctrl True)]
          awake_state)
   \<and> display_state awake_state = DISPLAY_STATE_AWAKE
   \<and> zsw_display_control_pwr_ctrl full_board False awake_state = (- EALREADY, awake_state)
   \<and> step full_board (Transition (Pwr_ctrl False)) sleeping_state =
       Inr (powered_off_state\<lparr>effects :=
              [Regulator_disable, Pm_device_action_run Display_dev PM_DEVICE_ACTION_TURN_OFF]\<rparr>)
   \<and> display_state sleeping_state = DISPLAY_STATE_SLEEPING"
proof -
  let ?cs = "[Transition (Pwr_ctrl False), Transition (Sleep_ctrl False),
         Transition (Pwr_ctrl False), Transition (Pwr_ctrl True), Transition (Sleep_ctrl True)]"
  have states: "map display_state (run_states full_board ?cs awake_state)
     = [DISPLAY_STATE_AWAKE, DISPLAY_STATE_AWAKE, DISPLAY_STATE_SLEEPING,
        DISPLAY_STATE_POWERED_OFF, DISPLAY_STATE_SLEEPING, DISPLAY_STATE_AWAKE]"
    by (simp add: run_defs example_boards example_states)
  have off: "step full_board (Transition (Pwr_ctrl False)) sleeping_state =
       Inr (powered_off_state\<lparr>effects :=
              [Regulator_disable, Pm_device_action_run Display_dev PM_DEVICE_ACTION_TURN_OFF]\<rparr>)"
    by (simp add: run_defs example_boards example_states powered_off_state_def)
  from never_between_awake_and_powered_off [where hw = full_board and cs = ?cs
      and s = awake_state]
    never_between_awake_and_powered_off [where hw = full_board and s = sleeping_state
      and c = "Transition (Pwr_ctrl False)"
      and s' = "powered_off_state\<lparr>effects :=
              [Regulator_disable, Pm_device_action_run Display_dev PM_DEVICE_ACTION_TURN_OFF]\<rparr>"]
  show ?thesis
    using states off by (simp add: example_states)
qed

section \<open>Devices that are not ready\<close>

text \<open>
  Claim C7 says that every operation skips the side effects aimed at a device that is
  not ready, the display panel included.  The readiness of \<open>display_dev\<close> is looked at
  in \<open>zsw_display_control_init\<close> only, for a log line: blanking, suspend, resume and
  turn-off reach a panel that is not ready.
\<close>

theorem panel_not_ready_counterexample:
  "\<not> display_dev_ready bare_board
   \<and> zsw_display_control_sleep_ctrl bare_board False awake_state =
       Inr (0, sleeping_state\<lparr>effects :=
                 [Display_blanking_on,
                  Pm_device_action_run Display_dev PM_DEVICE_ACTION_SUSPEND,
                  K_work_cancel_delayable_sync, Lv_obj_invalidate]\<rparr>)
   \<and> zsw_display_control_sleep_ctrl bare_board True sleeping_state =
       Inr (0, awake_state\<lparr>effects :=
                 [Pm_device_action_run Display_dev PM_DEVICE_ACTION_RESUME,
                  Display_blanking_off, K_work_schedule 250]\<rparr>)
   \<and> \<not> display_dev_ready regulator_only_board
   \<and> zsw_display_control_pwr_ctrl regulator_only_board False sleeping_state =
       (0, powered_off_state\<lparr>effects :=
             [Regulator_disable,
              Pm_device_action_run Display_dev PM_DEVICE_ACTION_TURN_OFF]\<rparr>)"
  by (simp add: run_defs example_boards example_states)

text \<open>
  Claim C7, amended.  \<open>zsw_display_control_set_brightness\<close> with a backlight that is not
  ready issues no command and changes nothing, so \<open>zsw_display_control_get_brightness\<close>
  is unaffected; the sleep and wake transitions leave out the suspend or resume of a
  touch controller that is not ready, and the backlight command of a backlight that is
  not ready, and still complete with 0.  The actions on the display panel (blanking,
  suspend, resume, turn-off, turn-on) are issued whether the panel is ready or not.
\<close>

theorem not_ready_devices_skipped:
  "(\<not> display_blk_ready hw \<longrightarrow>
      zsw_display_control_set_brightness hw percent s = Inr s)
   \<and> (display_state s = DISPLAY_STATE_AWAKE \<longrightarrow>
      zsw_display_control_sleep_ctrl hw False s =
        Inr (0, s\<lparr>display_state := DISPLAY_STATE_SLEEPING,
                  effects := effects s
                    @ [Display_blanking_on,
                       Pm_device_action_run Display_dev PM_DEVICE_ACTION_SUSPEND]
                    @ (if touch_dev_ready hw
                       then [Pm_device_action_run Touch_dev PM_DEVICE_ACTION_SUSPEND] else [])
                    @ (if display_blk_ready hw then [Pwm_set_pulse_dt 0] else [])
                    @ [K_work_cancel_delayable_sync, Lv_obj_invalidate]\<rparr>))
   \<and> (display_state s = DISPLAY_STATE_SLEEPING \<and> last_brightness s \<le> 100 \<longrightarrow>
      zsw_display_control_sleep_ctrl hw True s =
        Inr (0, s\<lparr>display_state := DISPLAY_STATE_AWAKE,
                  effects := effects s
                    @ [Pm_device_action_run Display_dev PM_DEVICE_ACTION_RESUME]
                    @ (if touch_dev_ready hw
                       then [Pm_device_action_run Touch_dev PM_DEVICE_ACTION_RESUME] else [])
                    @ (if \<not> first_render_since_poweron s \<and> display_blk_ready hw
                       then [Pwm_set_pulse_dt (pulse_width hw (last_brightness s))] else [])
                    @ [Display_blanking_off, K_work_schedule 250]\<rparr>))
   \<and> (display_state s = DISPLAY_STATE_SLEEPING \<and> reg_dev_ready hw \<longrightarrow>
      zsw_display_control_pwr_ctrl hw False s =
        (0, s\<lparr>display_state := DISPLAY_STATE_POWERED_OFF,
               effects := effects s
                 @ (if board_native_posix hw then [] else [Regulator_disable])
                 @ [Pm_device_action_run Display_dev PM_DEVICE_ACTION_TURN_OFF]\<rparr>))
   \<and> (display_state s = DISPLAY_STATE_POWERED_OFF \<and> reg_dev_ready hw \<longrightarrow>
      zsw_display_control_pwr_ctrl hw True s =
        (0, s\<lparr>display_state := DISPLAY_STATE_SLEEPING,
               first_render_since_poweron := True,
               effects := effects s
                 @ (if board_native_posix hw then [] else [Regulator_enable])
                 @ [Pm_device_action_run Display_dev PM_DEVICE_ACTION_TURN_ON]\<rparr>))"
proof (intro conjI impI)
  assume "\<not> display_blk_ready hw"
  then show "zsw_display_control_set_brightness hw percent s = Inr s"
    by (rule set_brightness_not_ready)
next
  assume "display_state s = DISPLAY_STATE_AWAKE"
  then show "zsw_display_control_sleep_ctrl hw False s =
        Inr (0, s\<lparr>display_state := DISPLAY_STATE_SLEEPING,
                  effects := effects s
                    @ [Display_blanking_on,
                       Pm_device_action_run Display_dev PM_DEVICE_ACTION_SUSPEND]
                    @ (if touch_dev_ready hw
                       then [Pm_device_action_run Touch_dev PM_DEVICE_ACTION_SUSPEND] else [])
                    @ (if display_blk_ready hw then [Pwm_set_pulse_dt 0] else [])
                    @ [K_work_cancel_delayable_sync, Lv_obj_invalidate]\<rparr>)"
    by (rule sleep_ctrl_awake_off)
next
  assume "display_state s = DISPLAY_STATE_SLEEPING \<and> last_brightness s \<le> 100"
  then show "zsw_display_control_sleep_ctrl hw True s =
        Inr (0, s\<lparr>display_state := DISPLAY_STATE_AWAKE,
                  effects := effects s
                    @ [Pm_device_action_run Display_dev PM_DEVICE_ACTION_RESUME]
                    @ (if touch_dev_ready hw
                       then [Pm_device_action_run Touch_dev PM_DEVICE_ACTION_RESUME] else [])
                    @ (if \<not> first_render_since_poweron s \<and> display_blk_ready hw
                       then [Pwm_set_pulse_dt (pulse_width hw (last_brightness s))] else [])
                    @ [Display_blanking_off, K_work_schedule 250]\<rparr>)"
    by (simp add: sleep_ctrl_sleeping_on)
next
  assume "display_state s = DISPLAY_STATE_SLEEPING \<and> reg_dev_ready hw"
  then show "zsw_display_control_pwr_ctrl hw False s =
        (0, s\<lparr>display_state := DISPLAY_STATE_POWERED_OFF,
               effects := effects s
                 @ (if board_native_posix hw then [] else [Regulator_disable])
                 @ [Pm_device_action_run Display_dev PM_DEVICE_ACTION_TURN_OFF]\<rparr>)"
    by (simp add: pwr_ctrl_sleeping_off)
next
  assume "display_state s = DISPLAY_STATE_POWERED_OFF \<and> reg_dev_ready hw"
  then show "zsw_display_control_pwr_ctrl hw True s =
        (0, s\<lparr>display_state := DISPLAY_STATE_SLEEPING,
               first_render_since_poweron := True,
               effects := effects s
                 @ (if board_native_posix hw then [] else [Regulator_enable])
                 @ [Pm_device_action_run Display_dev PM_DEVICE_ACTION_TURN_ON]\<rparr>)"
    by (simp add: pwr_ctrl_powered_off_on)
qed

theorem not_ready_devices_skipped_witness:
  "\<not> display_blk_ready regulator_only_board
   \<and> zsw_display_control_set_brightness regulator_only_board 50 awake_state = Inr awake_state
   \<and> zsw_display_control_sleep_ctrl regulator_only_board False awake_state =
       Inr (0, sleeping_state\<lparr>effects :=
                 [Display_blanking_on,
                  Pm_device_action_run Display_dev PM_DEVICE_ACTION_SUSPEND,
                  K_work_cancel_delayable_sync, Lv_obj_invalidate]\<rparr>)
   \<and> zsw_display_control_sleep_ctrl regulator_only_board True sleeping_state =
       Inr (0, awake_state\<lparr>effects :=
                 [Pm_device_action_run Display_dev PM_DEVICE_ACTION_RESUME,
                  Display_blanking_off, K_work_schedule 250]\<rparr>)
   \<and> zsw_display_control_pwr_ctrl regulator_only_board False sleeping_state =
       (0, powered_off_state\<lparr>effects :=
             [Regulator_disable,
              Pm_device_action_run Display_dev PM_DEVICE_ACTION_TURN_OFF]\<rparr>)
   \<and> zsw_display_control_pwr_ctrl regulator_only_board True powered_off_state =
       (0, first_render_state\<lparr>effects :=
             [Regulator_enable,
              Pm_device_action_run Display_dev PM_DEVICE_ACTION_TURN_ON]\<rparr>)"
  using not_ready_devices_skipped [where hw = regulator_only_board and s = awake_state
      and percent = 50]
    not_ready_devices_skipped [where hw = regulator_only_board and s = sleeping_state]
    not_ready_devices_skipped [where hw = regulator_only_board and s = powered_off_state]
  by (simp add: example_boards example_states first_render_state_simps)

section \<open>The pulse width\<close>

text \<open>
  Claim C8 says that the pulse width is \<open>percent * period / 100\<close> for every period, so
  that 100 percent is the full period.  The code divides first,
  \<open>percent * (period / 100)\<close>, and the division truncates: with a period of 150 the
  pulse width for 100 percent is 100.
\<close>

theorem pulse_width_truncates_counterexample:
  "display_blk_ready odd_period_board
   \<and> display_blk_period odd_period_board = 150
   \<and> zsw_display_control_set_brightness odd_period_board 100 sleeping_state =
       Inr (sleeping_state\<lparr>last_brightness := 100, effects := [Pwm_set_pulse_dt 100]\<rparr>)
   \<and> unat (100 :: u8) * unat (display_blk_period odd_period_board) div 100 = 150
   \<and> pulse_width odd_period_board 100 \<noteq> display_blk_period odd_period_board"
  by (simp add: run_defs example_boards example_states)

text \<open>
  Claim C8, amended.  For every percentage from 0 to 100 with the backlight ready,
  \<open>zsw_display_control_set_brightness\<close> commands the pulse width
  \<open>percent * (period div 100)\<close>, computed without wrap-around and never above the
  period; it equals \<open>percent * period / 100\<close> whenever the period is a multiple of 100.
\<close>

theorem pulse_width_linear_in_percent:
  "percent \<le> 100 \<and> display_blk_ready hw \<longrightarrow>
     zsw_display_control_set_brightness hw percent s =
       Inr ((if percent \<noteq> 0 then s\<lparr>last_brightness := percent\<rparr> else s)
              \<lparr>effects := effects s @ [Pwm_set_pulse_dt (pulse_width hw percent)]\<rparr>)
     \<and> unat (pulse_width hw percent) = unat percent * (unat (display_blk_period hw) div 100)
     \<and> pulse_width hw percent \<le> display_blk_period hw
     \<and> (100 dvd unat (display_blk_period hw) \<longrightarrow>
          unat (pulse_width hw percent) = unat percent * unat (display_blk_period hw) div 100)"
proof
  assume a: "percent \<le> 100 \<and> display_blk_ready hw"
  then have le: "percent \<le> 100" and ready: "display_blk_ready hw"
    by simp_all
  have "zsw_display_control_set_brightness hw percent s =
       Inr ((if percent \<noteq> 0 then s\<lparr>last_brightness := percent\<rparr> else s)
              \<lparr>effects := effects s @ [Pwm_set_pulse_dt (pulse_width hw percent)]\<rparr>)"
    using ready by (simp add: set_brightness_in_range [OF le] emit_def)
  moreover have "unat (pulse_width hw percent)
      = unat percent * (unat (display_blk_period hw) div 100)"
    using le by (rule unat_pulse_width)
  moreover have "pulse_width hw percent \<le> display_blk_period hw"
    using le by (rule pulse_width_le_period)
  moreover have "100 dvd unat (display_blk_period hw) \<longrightarrow>
      unat (pulse_width hw percent) = unat percent * unat (display_blk_period hw) div 100"
    using le by (simp add: pulse_width_exact)
  ultimately show "zsw_display_control_set_brightness hw percent s =
       Inr ((if percent \<noteq> 0 then s\<lparr>last_brightness := percent\<rparr> else s)
              \<lparr>effects := effects s @ [Pwm_set_pulse_dt (pulse_width hw percent)]\<rparr>)
     \<and> unat (pulse_width hw percent) = unat percent * (unat (display_blk_period hw) div 100)
     \<and> pulse_width hw percent \<le> display_blk_period hw
     \<and> (100 dvd unat (display_blk_period hw) \<longrightarrow>
          unat (pulse_width hw percent) = unat percent * unat (display_blk_period hw) div 100)"
    by blast
qed

theorem pulse_width_linear_in_percent_witness:
  "(100 :: u8) \<le> 100 \<and> display_blk_ready full_board
   \<and> 100 dvd unat (display_blk_period full_board)
   \<and> zsw_display_control_set_brightness full_board 100 sleeping_state =
       Inr (sleeping_state\<lparr>last_brightness := 100, effects := [Pwm_set_pulse_dt 20000000]\<rparr>)
   \<and> unat (pulse_width full_board 100) = 20000000
   \<and> pulse_width full_board 100 = display_blk_period full_board"
  using pulse_width_linear_in_percent [where hw = full_board and percent = 100
      and s = sleeping_state]
  by (simp add: example_boards example_states pulse_width_def)

section \<open>The result 0 and a change of state\<close>

text \<open>
  Claim C9.  A call of either transition entry point returns 0 exactly when it changed
  \<open>display_state\<close>; a non-zero result leaves \<open>display_state\<close> as it was.  The call does
  return whenever \<open>last_brightness\<close> is in range.
\<close>

theorem ok_iff_display_state_changed:
  "(transition_call hw t s = Inr (res, s') \<longrightarrow>
      (res = 0 \<longleftrightarrow> display_state s' \<noteq> display_state s))
   \<and> (last_brightness s \<le> 100 \<longrightarrow> (\<exists>r s1. transition_call hw t s = Inr (r, s1)))"
  using transition_call_display_state [of hw t s res s'] transition_call_returns [of s hw t]
  by blast

theorem ok_iff_display_state_changed_witness:
  "transition_call full_board (Pwr_ctrl False) sleeping_state =
     Inr (0, powered_off_state\<lparr>effects :=
               [Regulator_disable,
                Pm_device_action_run Display_dev PM_DEVICE_ACTION_TURN_OFF]\<rparr>)
   \<and> display_state (powered_off_state\<lparr>effects :=
               [Regulator_disable,
                Pm_device_action_run Display_dev PM_DEVICE_ACTION_TURN_OFF]\<rparr>)
       \<noteq> display_state sleeping_state
   \<and> transition_call bare_board (Pwr_ctrl False) sleeping_state =
       Inr (- EALREADY, sleeping_state)
   \<and> - EALREADY \<noteq> 0
   \<and> transition_call full_board (Sleep_ctrl False) powered_off_state =
       Inr (- EIO, powered_off_state)
   \<and> - EIO \<noteq> 0
   \<and> last_brightness sleeping_state \<le> 100"
  using ok_iff_display_state_changed [where hw = full_board and t = "Pwr_ctrl False"
      and s = sleeping_state and res = 0
      and s' = "powered_off_state\<lparr>effects :=
               [Regulator_disable,
                Pm_device_action_run Display_dev PM_DEVICE_ACTION_TURN_OFF]\<rparr>"]
    ok_iff_display_state_changed [where hw = bare_board and t = "Pwr_ctrl False"
      and s = sleeping_state and res = "- EALREADY" and s' = sleeping_state]
    ok_iff_display_state_changed [where hw = full_board and t = "Sleep_ctrl False"
      and s = powered_off_state and res = "- EIO" and s' = powered_off_state]
  by (simp add: transition_call_def pwr_ctrl_sleeping_off sleep_ctrl_powered_off
      example_boards example_states)

section \<open>The readiness check comes before the range assertion\<close>

text \<open>
  Claim C10.  With the backlight not ready \<open>zsw_display_control_set_brightness\<close> returns
  at once for every argument, also one above 100, with no assertion failure and the
  state unchanged.  With the backlight ready an argument above 100 fails the assertion.
\<close>

theorem readiness_check_precedes_assertion:
  "(\<not> display_blk_ready hw \<longrightarrow>
      zsw_display_control_set_brightness hw percent s = Inr s)
   \<and> (display_blk_ready hw \<and> \<not> percent \<le> 100 \<longrightarrow>
      zsw_display_control_set_brightness hw percent s = Inl Assertion_failed)"
  by (simp add: zsw_display_control_set_brightness_def)

theorem readiness_check_precedes_assertion_witness:
  "\<not> display_blk_ready bare_board
   \<and> zsw_display_control_set_brightness bare_board 200 awake_state = Inr awake_state
   \<and> display_blk_ready full_board \<and> \<not> (200 :: u8) \<le> 100
   \<and> zsw_display_control_set_brightness full_board 200 awake_state = Inl Assertion_failed"
  using readiness_check_precedes_assertion [where hw = bare_board and percent = 200
      and s = awake_state]
    readiness_check_precedes_assertion [where hw = full_board and percent = 200
      and s = awake_state]
  by (simp add: example_boards)

end
